theory Spec2Isabelle
  imports Main
begin

section \<open>Data model of confgenerator/filter/filter.go\<close>

text \<open>
  Go strings are byte strings and are modelled as \<open>string\<close> (a list of 8-bit characters).
  Pointers to \<open>Filter\<close> are modelled by the value they point to: the model covers calls
  whose \<open>*Filter\<close> arguments are not nil.

  The package \<open>ast\<close> (the expression tree and its two compilation methods), the generated
  lexer and parser, and the package \<open>fluentbit\<close> are not part of filter.go. filter.go shows
  of them: \<open>ast.Restriction\<close> is a struct with the fields \<open>Operator\<close> (a string) and \<open>LHS\<close>
  (an \<open>ast.Target\<close>); \<open>ast.Disjunction\<close> is a slice of expressions that is itself an
  expression; \<open>fluentbit.Component\<close> is a struct with the fields \<open>Kind\<close> (a string) and
  \<open>Config\<close> (a map from string to string).
\<close>

text \<open>
  Modelled from the spec: the declaration of \<open>ast.Target\<close>, which filter.go only embeds
  in \<open>Member\<close>; the spec calls it a field path.
\<close>

type_synonym Target = "string list"

text \<open>
  Modelled from the spec: the node kinds of \<open>ast.Expression\<close> (section 3 of the spec:
  FieldRestriction(operator, field-path, literal), Negation(child), Conjunction(children),
  Disjunction(children)). The field names \<open>Operator\<close> and \<open>LHS\<close> and the slice type
  \<open>Disjunction\<close> are the ones filter.go uses.
\<close>

datatype expression =
    Restriction (Operator: string) (LHS: Target) (RHS: string)
  | Negation expression
  | Conjunction "expression list"
  | Disjunction "expression list"

text \<open>
  The value the generated parser returns has the empty interface type. filter.go only
  inspects it through the type assertions \<open>out.(ast.Restriction)\<close> and
  \<open>out.(ast.Expression)\<close>, so a parse result is either an expression or some other value
  (described by its printed form).
\<close>

datatype attrib = Expr expression | NonExpr string

datatype error =
    ParseError string
  | NotAField attrib
  | NotAnExpression attrib

record Member =
  Target :: Target

record Filter =
  expr :: expression

record Component =
  Kind :: string
  Config :: "string \<rightharpoonup> string"

text \<open>
  The lexer and parser (\<open>lexer.NewLexer\<close>, \<open>parser.NewParser\<close>, \<open>p.Parse\<close>) are taken as
  one function from the input text to a parse error or a parse result. The two methods of
  \<open>ast.Expression\<close> that filter.go calls are taken as functions of the expression, the
  tag and the key or prefix.
\<close>

type_synonym Parse_fn = "string \<Rightarrow> string + attrib"
type_synonym FluentConfig_method = "expression \<Rightarrow> string \<Rightarrow> string \<Rightarrow> Component list \<times> string"
type_synonym Components_method = "expression \<Rightarrow> string \<Rightarrow> string \<Rightarrow> Component list"

section \<open>The constructors\<close>

definition NewMember :: "Parse_fn \<Rightarrow> string \<Rightarrow> error + Member" where
  "NewMember Parse m =
     (case Parse m of
        Inl err \<Rightarrow> Inl (ParseError err)
      | Inr out \<Rightarrow>
          (case out of
             Expr (Restriction op lhs rhs) \<Rightarrow>
               if op \<noteq> ''GLOBAL'' then Inl (NotAField out) else Inr \<lparr>Target = lhs\<rparr>
           | _ \<Rightarrow> Inl (NotAField out)))"

definition NewFilter :: "Parse_fn \<Rightarrow> string \<Rightarrow> error + Filter" where
  "NewFilter Parse f =
     (case Parse f of
        Inl err \<Rightarrow> Inl (ParseError err)
      | Inr out \<Rightarrow>
          (case out of
             Expr e \<Rightarrow> Inr \<lparr>expr = e\<rparr>
           | _ \<Rightarrow> Inl (NotAnExpression out)))"

section \<open>String helpers of the Go standard library\<close>

text \<open>
  \<open>strings.ReplaceAll(s, old, new)\<close> for \<open>old\<close> and \<open>new\<close> of one byte each (filter.go
  calls it with \<open>"."\<close> and \<open>"_"\<close>): every occurrence of the byte is replaced.
\<close>

definition ReplaceAll :: "string \<Rightarrow> char \<Rightarrow> char \<Rightarrow> string" where
  "ReplaceAll s old new = map (\<lambda>c. if c = old then new else c) s"

text \<open>The verb \<open>%d\<close> of \<open>fmt.Sprintf\<close> on a loop index (never negative).\<close>

function itoa :: "nat \<Rightarrow> string" where
  "itoa n = (if n < 10 then [''0123456789'' ! n] else itoa (n div 10) @ [''0123456789'' ! (n mod 10)])"
  by pat_completeness auto
termination
  by (relation "measure id") auto

declare itoa.simps [simp del]

section \<open>Compilation entry points\<close>

definition innerFluentConfig ::
  "FluentConfig_method \<Rightarrow> Filter \<Rightarrow> string \<Rightarrow> string \<Rightarrow> Component list \<times> string" where
  "innerFluentConfig FC f tag prefix = FC (expr f) tag prefix"

definition MatchesAny :: "Filter list \<Rightarrow> Filter" where
  "MatchesAny filters = \<lparr>expr = Disjunction (foldl (\<lambda>d f. d @ [expr f]) [] filters)\<rparr>"

text \<open>
  The second loop of \<open>AllFluentConfig\<close> (lines 90 to 96). \<open>filters k\<close> is the map lookup
  \<open>filters[k]\<close>; for a name that is not in the map Go yields a nil pointer, whose
  dereference panics: the result \<open>None\<close>.
\<close>

fun AllFluentConfig_loop ::
  "FluentConfig_method \<Rightarrow> string \<Rightarrow> (string \<rightharpoonup> Filter) \<Rightarrow> nat \<Rightarrow> string list \<Rightarrow>
   Component list \<Rightarrow> string \<Rightarrow> (Component list \<times> string) option" where
  "AllFluentConfig_loop FC tag filters i [] c lua = Some (c, lua)"
| "AllFluentConfig_loop FC tag filters i (k # vars) c lua =
     (let prefix = ''__match_'' @ itoa i in
      case filters k of
        None \<Rightarrow> None
      | Some filter_k \<Rightarrow>
          (case innerFluentConfig FC filter_k tag prefix of
             (filterComponents, filterExpr) \<Rightarrow>
               AllFluentConfig_loop FC tag filters (Suc i) vars
                 (c @ filterComponents)
                 (lua @ ''local '' @ k @ '' = '' @ filterExpr @ [CHR 0x0A])))"

text \<open>
  \<open>AllFluentConfig\<close>. The first loop (lines 86 to 88) collects the names in the order in
  which \<open>range\<close> yields them. Go leaves the iteration order of a map unspecified, so that
  order is the argument \<open>vars\<close> of the model; \<open>range_order\<close> says which lists it can be.
\<close>

definition range_order :: "(string \<rightharpoonup> Filter) \<Rightarrow> string list \<Rightarrow> bool" where
  "range_order filters vars = (distinct vars \<and> set vars = dom filters)"

definition AllFluentConfig ::
  "FluentConfig_method \<Rightarrow> string \<Rightarrow> (string \<rightharpoonup> Filter) \<Rightarrow> string list \<Rightarrow>
   (Component list \<times> string) option" where
  \<open>AllFluentConfig FC tag filters vars =
     (case AllFluentConfig_loop FC tag filters 0 vars [] [] of
        None \<Rightarrow> None
      | Some (c, lua) \<Rightarrow>
          if length c = 0 then Some ([], lua)
          else
            (let out = [\<lparr>Kind = ''FILTER'',
                         Config = [''Name'' \<mapsto> ''nest'', ''Match'' \<mapsto> tag,
                                   ''Operation'' \<mapsto> ''nest'', ''Nest_under'' \<mapsto> ''record'',
                                   ''Wildcard'' \<mapsto> ''*'']\<rparr>];
                 out = out @ c;
                 out = out @ [\<lparr>Kind = ''FILTER'',
                               Config = [''Name'' \<mapsto> ''nest'', ''Match'' \<mapsto> tag,
                                         ''Operation'' \<mapsto> ''lift'',
                                         ''Nested_under'' \<mapsto> ''record'']\<rparr>]
             in Some (out,
                  lua @ [CHR 0x0A] @ ''for k, v in pairs(record) do'' @ [CHR 0x0A]
                      @ ''  if string.match(k, "^__match_.+") then'' @ [CHR 0x0A]
                      @ ''    record[k] = nil'' @ [CHR 0x0A]
                      @ ''  end'' @ [CHR 0x0A]
                      @ ''end'' @ [CHR 0x0A])))\<close>

definition innerComponents :: "Components_method \<Rightarrow> Filter \<Rightarrow> string \<Rightarrow> Component list" where
  "innerComponents EC f tag =
     (let match = ''__match_'' @ ReplaceAll tag (CHR ''.'') (CHR ''_'')
      in EC (expr f) tag match)"

definition AllComponents ::
  "Components_method \<Rightarrow> string \<Rightarrow> Filter list \<Rightarrow> bool \<Rightarrow> Component list" where
  "AllComponents EC tag filters isExclusionFilter =
     (let parity = (if isExclusionFilter then ''Exclude'' else ''Regex'');
          c = [\<lparr>Kind = ''FILTER'',
                Config = [''Name'' \<mapsto> ''nest'', ''Match'' \<mapsto> tag,
                          ''Operation'' \<mapsto> ''nest'', ''Nest_under'' \<mapsto> ''record'',
                          ''Wildcard'' \<mapsto> ''*'']\<rparr>];
          match = ''__match_'' @ ReplaceAll tag (CHR ''.'') (CHR ''_'');
          c = foldl (\<lambda>c filter_k. c @ innerComponents EC filter_k tag) c filters
      in c @
         [\<lparr>Kind = ''FILTER'',
           Config = [''Name'' \<mapsto> ''grep'', ''Match'' \<mapsto> tag, parity \<mapsto> match @ '' 1'']\<rparr>,
          \<lparr>Kind = ''FILTER'',
           Config = [''Name'' \<mapsto> ''modify'', ''Match'' \<mapsto> tag, ''Remove_wildcard'' \<mapsto> match]\<rparr>,
          \<lparr>Kind = ''FILTER'',
           Config = [''Name'' \<mapsto> ''nest'', ''Match'' \<mapsto> tag,
                     ''Operation'' \<mapsto> ''lift'', ''Nested_under'' \<mapsto> ''record'']\<rparr>])"

definition Components :: "Components_method \<Rightarrow> Filter \<Rightarrow> string \<Rightarrow> bool \<Rightarrow> Component list" where
  "Components EC f tag isExclusionFilter = AllComponents EC tag [f] isExclusionFilter"

section \<open>The absent methods of \<open>ast.Expression\<close>\<close>

text \<open>Joining texts with a separator, for the script text of conjunctions and disjunctions.\<close>

fun join :: "string \<Rightarrow> string list \<Rightarrow> string" where
  "join sep [] = []"
| "join sep [x] = x"
| "join sep (x # y # ys) = x @ sep @ join sep (y # ys)"

text \<open>
  Modelled from the spec: the method \<open>FluentConfig\<close> of \<open>ast.Expression\<close>, which is not in
  filter.go (section 4.1 of the spec). A field restriction emits zero stages and a
  comparison over the field path and the literal; a negation passes the stages of its
  child through and negates the text; a conjunction or disjunction compiles each child
  under its own sub-prefix, concatenates the stages in child order and joins the texts
  with the logical operator. The spec fixes neither the encoding of the text nor the form
  of the sub-prefixes, only that the sub-prefixes of siblings differ: child \<open>i\<close> gets the
  prefix followed by \<open>_i\<close>.
\<close>

fun spec_FluentConfig :: "expression \<Rightarrow> string \<Rightarrow> string \<Rightarrow> Component list \<times> string"
  and spec_FluentConfig_children ::
    "expression list \<Rightarrow> string \<Rightarrow> string \<Rightarrow> nat \<Rightarrow> Component list \<times> string list" where
  "spec_FluentConfig (Restriction op lhs rhs) tag prefix =
     ([], join ''.'' lhs @ '' '' @ op @ '' '' @ rhs)"
| "spec_FluentConfig (Negation e) tag prefix =
     (case spec_FluentConfig e tag prefix of (c, t) \<Rightarrow> (c, ''not ('' @ t @ '')''))"
| "spec_FluentConfig (Conjunction es) tag prefix =
     (case spec_FluentConfig_children es tag prefix 0 of
        (c, ts) \<Rightarrow> (c, ''('' @ join '' and '' ts @ '')''))"
| "spec_FluentConfig (Disjunction es) tag prefix =
     (case spec_FluentConfig_children es tag prefix 0 of
        (c, ts) \<Rightarrow> (c, ''('' @ join '' or '' ts @ '')''))"
| "spec_FluentConfig_children [] tag prefix i = ([], [])"
| "spec_FluentConfig_children (e # es) tag prefix i =
     (case spec_FluentConfig e tag (prefix @ ''_'' @ itoa i) of
        (c, t) \<Rightarrow>
          (case spec_FluentConfig_children es tag prefix (Suc i) of
             (cs, ts) \<Rightarrow> (c @ cs, t # ts)))"

text \<open>
  Modelled from the spec: the method \<open>Components\<close> of \<open>ast.Expression\<close>, which is not in
  filter.go. Section 4.2 of the spec takes the inner stages of a filter to be the stages of
  the compilation of section 4.1 under the match variable.
\<close>

definition spec_Components :: "expression \<Rightarrow> string \<Rightarrow> string \<Rightarrow> Component list" where
  "spec_Components e tag key = fst (spec_FluentConfig e tag key)"

text \<open>
  A second implementation of the two methods, which emits one stage for every expression:
  a modify filter, the kind of stage that the comment on \<open>innerComponents\<close> names ("only
  the logical modify filters"). The theorems below hold for every implementation of the
  methods; this one instantiates them where inner stages are present.
\<close>

definition modify_Components :: "expression \<Rightarrow> string \<Rightarrow> string \<Rightarrow> Component list" where
  "modify_Components e tag key =
     [\<lparr>Kind = ''FILTER'',
       Config = [''Name'' \<mapsto> ''modify'', ''Match'' \<mapsto> tag, ''Add'' \<mapsto> key @ '' 1'']\<rparr>]"

definition modify_FluentConfig ::
  "expression \<Rightarrow> string \<Rightarrow> string \<Rightarrow> Component list \<times> string" where
  "modify_FluentConfig e tag prefix = (modify_Components e tag prefix, ''record.'' @ prefix)"

text \<open>
  Modelled from the spec: the result of the absent parser on the text of a bare field
  reference. Section 3 of the spec: a bare field reference with no comparison operator is a
  restriction of kind \<open>GLOBAL\<close> over the field path. The text \<open>severity\<close> is parsed so;
  on any other text this parser reports an error.
\<close>

definition severity_Parse :: "string \<Rightarrow> string + attrib" where
  "severity_Parse s =
     (if s = ''severity'' then Inr (Expr (Restriction ''GLOBAL'' [''severity''] []))
      else Inl ''syntax error'')"

section \<open>Vocabulary of the specification\<close>

text \<open>The stages of the envelope, by the names the specification gives them.\<close>

definition grouping_stage :: "string \<Rightarrow> Component" where
  "grouping_stage tag =
     \<lparr>Kind = ''FILTER'',
      Config = [''Name'' \<mapsto> ''nest'', ''Match'' \<mapsto> tag, ''Operation'' \<mapsto> ''nest'',
                ''Nest_under'' \<mapsto> ''record'', ''Wildcard'' \<mapsto> ''*'']\<rparr>"

definition ungrouping_stage :: "string \<Rightarrow> Component" where
  "ungrouping_stage tag =
     \<lparr>Kind = ''FILTER'',
      Config = [''Name'' \<mapsto> ''nest'', ''Match'' \<mapsto> tag, ''Operation'' \<mapsto> ''lift'',
                ''Nested_under'' \<mapsto> ''record'']\<rparr>"

text \<open>
  The match variable of a tag as filter.go computes it (lines 135 and 166): the tag with
  every dot replaced by an underscore, after the fixed prefix.
\<close>

definition match_variable :: "string \<Rightarrow> string" where
  "match_variable tag = ''__match_'' @ ReplaceAll tag (CHR ''.'') (CHR ''_'')"

definition match_stage :: "string \<Rightarrow> bool \<Rightarrow> Component" where
  "match_stage tag isExclusionFilter =
     \<lparr>Kind = ''FILTER'',
      Config = [''Name'' \<mapsto> ''grep'', ''Match'' \<mapsto> tag,
                (if isExclusionFilter then ''Exclude'' else ''Regex'') \<mapsto>
                  match_variable tag @ '' 1'']\<rparr>"

definition removal_stage :: "string \<Rightarrow> Component" where
  "removal_stage tag =
     \<lparr>Kind = ''FILTER'',
      Config = [''Name'' \<mapsto> ''modify'', ''Match'' \<mapsto> tag,
                ''Remove_wildcard'' \<mapsto> match_variable tag]\<rparr>"

text \<open>A stage is a grouping (ungrouping) stage when it runs the nest plugin in nest (lift) mode.\<close>

definition is_grouping :: "Component \<Rightarrow> bool" where
  "is_grouping c = (Config c ''Name'' = Some ''nest'' \<and> Config c ''Operation'' = Some ''nest'')"

definition is_ungrouping :: "Component \<Rightarrow> bool" where
  "is_ungrouping c = (Config c ''Name'' = Some ''nest'' \<and> Config c ''Operation'' = Some ''lift'')"

definition alphanumeric :: "char \<Rightarrow> bool" where
  "alphanumeric c =
     (c \<in> set ''ABCDEFGHIJKLMNOPQRSTUVWXYZabcdefghijklmnopqrstuvwxyz0123456789'')"

text \<open>
  The concatenation of the inner stages of all filters, and the declarations of the local
  booleans, for the names in the order \<open>vars\<close>: the name at position \<open>i\<close> is compiled
  under the prefix \<open>__match_i\<close>.
\<close>

definition inner_stages ::
  "FluentConfig_method \<Rightarrow> string \<Rightarrow> (string \<rightharpoonup> Filter) \<Rightarrow> string list \<Rightarrow> Component list" where
  "inner_stages FC tag filters vars =
     concat (map (\<lambda>(i, k). case filters k of
                              None \<Rightarrow> []
                            | Some f \<Rightarrow> fst (FC (expr f) tag (''__match_'' @ itoa i)))
                 (enumerate 0 vars))"

definition local_declarations ::
  "FluentConfig_method \<Rightarrow> string \<Rightarrow> (string \<rightharpoonup> Filter) \<Rightarrow> string list \<Rightarrow> string" where
  "local_declarations FC tag filters vars =
     concat (map (\<lambda>(i, k). case filters k of
                              None \<Rightarrow> []
                            | Some f \<Rightarrow>
                                ''local '' @ k @ '' = ''
                                  @ snd (FC (expr f) tag (''__match_'' @ itoa i)) @ [CHR 0x0A])
                 (enumerate 0 vars))"

definition cleanup_loop :: string where
  \<open>cleanup_loop =
     [CHR 0x0A] @ ''for k, v in pairs(record) do'' @ [CHR 0x0A]
       @ ''  if string.match(k, "^__match_.+") then'' @ [CHR 0x0A]
       @ ''    record[k] = nil'' @ [CHR 0x0A]
       @ ''  end'' @ [CHR 0x0A]
       @ ''end'' @ [CHR 0x0A]\<close>

section \<open>Auxiliary lemmas\<close>

lemma foldl_append_concat: "foldl (\<lambda>c f. c @ g f) c fs = c @ concat (map g fs)"
  by (induction fs arbitrary: c) auto

lemma AllComponents_eq:
  "AllComponents EC tag filters excl =
     grouping_stage tag # concat (map (\<lambda>f. innerComponents EC f tag) filters)
       @ [match_stage tag excl, removal_stage tag, ungrouping_stage tag]"
  by (simp add: AllComponents_def foldl_append_concat grouping_stage_def match_stage_def
      removal_stage_def ungrouping_stage_def match_variable_def)

lemma is_grouping_simps:
  "is_grouping (grouping_stage tag)" "\<not> is_grouping (ungrouping_stage tag)"
  "\<not> is_grouping (match_stage tag excl)" "\<not> is_grouping (removal_stage tag)"
  by (simp_all add: is_grouping_def grouping_stage_def ungrouping_stage_def match_stage_def
      removal_stage_def)

lemma is_ungrouping_simps:
  "\<not> is_ungrouping (grouping_stage tag)" "is_ungrouping (ungrouping_stage tag)"
  "\<not> is_ungrouping (match_stage tag excl)" "\<not> is_ungrouping (removal_stage tag)"
  by (simp_all add: is_ungrouping_def grouping_stage_def ungrouping_stage_def match_stage_def
      removal_stage_def)

lemma filter_no_nest:
  assumes "\<forall>c\<in>set cs. Config c ''Name'' \<noteq> Some ''nest''"
  shows "filter is_grouping cs = []" and "filter is_ungrouping cs = []"
  using assms by (auto simp: filter_empty_conv is_grouping_def is_ungrouping_def)

text \<open>
  The second loop of \<open>AllFluentConfig\<close> never panics on names of the map, and appends the
  stages and the declarations of the names in order.
\<close>

lemma AllFluentConfig_loop_eq:
  "set vars \<subseteq> dom filters \<Longrightarrow>
   AllFluentConfig_loop FC tag filters i vars c lua =
     Some (c @ concat (map (\<lambda>(i, k). case filters k of None \<Rightarrow> []
                 | Some f \<Rightarrow> fst (FC (expr f) tag (''__match_'' @ itoa i))) (enumerate i vars)),
           lua @ concat (map (\<lambda>(i, k). case filters k of None \<Rightarrow> []
                 | Some f \<Rightarrow> ''local '' @ k @ '' = '' @ snd (FC (expr f) tag (''__match_'' @ itoa i))
                     @ [CHR 0x0A]) (enumerate i vars)))"
  by (induction vars arbitrary: i c lua) (auto simp: innerFluentConfig_def split: prod.splits)

lemma AllFluentConfig_eq:
  assumes "range_order filters vars"
  shows "AllFluentConfig FC tag filters vars =
     Some (if inner_stages FC tag filters vars = []
           then ([], local_declarations FC tag filters vars)
           else (grouping_stage tag # inner_stages FC tag filters vars @ [ungrouping_stage tag],
                 local_declarations FC tag filters vars @ cleanup_loop))"
proof -
  from assms have "set vars \<subseteq> dom filters"
    by (simp add: range_order_def)
  then have "AllFluentConfig_loop FC tag filters 0 vars [] [] =
      Some (inner_stages FC tag filters vars, local_declarations FC tag filters vars)"
    by (simp add: AllFluentConfig_loop_eq inner_stages_def local_declarations_def)
  then show ?thesis
    by (simp add: AllFluentConfig_def grouping_stage_def ungrouping_stage_def cleanup_loop_def)
qed

text \<open>The compilation of section 4.1 of the spec emits no stage for any expression.\<close>

lemma spec_FluentConfig_no_stages:
  "fst (spec_FluentConfig e tag prefix) = []"
  "fst (spec_FluentConfig_children es tag prefix i) = []"
  by (induction e tag prefix and es tag prefix i
      rule: spec_FluentConfig_spec_FluentConfig_children.induct)
    (auto split: prod.splits)

lemma spec_Components_empty: "spec_Components e tag key = []"
  by (simp add: spec_Components_def spec_FluentConfig_no_stages)

lemma Components_eq:
  "Components EC f tag excl =
     grouping_stage tag # EC (expr f) tag (match_variable tag)
       @ [match_stage tag excl, removal_stage tag, ungrouping_stage tag]"
  by (simp add: Components_def AllComponents_eq innerComponents_def match_variable_def)

lemma match_variable_app_log: "match_variable ''app.log'' = ''__match_app_log''"
  by (simp add: match_variable_def ReplaceAll_def)

section \<open>Enumeration order of \<open>AllFluentConfig\<close>\<close>

text \<open>
  C1 asks that two calls of \<open>AllFluentConfig\<close> with the same tag and the same mapping
  return the same stages and the same script text. The code iterates over the Go map
  without fixing an order. For every mapping with the two names \<open>a\<close> and \<open>b\<close>, whatever the
  two filters and whatever the implementation of \<open>FluentConfig\<close>, both \<open>[a, b]\<close> and
  \<open>[b, a]\<close> are orders in which \<open>range\<close> can yield the names, and the two results differ.
\<close>

theorem AllFluentConfig_depends_on_range_order:
  "range_order [''a'' \<mapsto> f1, ''b'' \<mapsto> f2] [''a'', ''b'']
   \<and> range_order [''a'' \<mapsto> f1, ''b'' \<mapsto> f2] [''b'', ''a'']
   \<and> AllFluentConfig FC tag [''a'' \<mapsto> f1, ''b'' \<mapsto> f2] [''a'', ''b'']
       \<noteq> AllFluentConfig FC tag [''a'' \<mapsto> f1, ''b'' \<mapsto> f2] [''b'', ''a'']"
proof -
  let ?M = "[''a'' \<mapsto> f1, ''b'' \<mapsto> f2]"
  have ab: "range_order ?M [''a'', ''b'']" and ba: "range_order ?M [''b'', ''a'']"
    by (auto simp: range_order_def)
  have "local_declarations FC tag ?M [''a'', ''b''] \<noteq> local_declarations FC tag ?M [''b'', ''a'']"
    by (simp add: local_declarations_def)
  then have "AllFluentConfig FC tag ?M [''a'', ''b''] \<noteq> AllFluentConfig FC tag ?M [''b'', ''a'']"
    by (simp add: AllFluentConfig_eq [OF ab] AllFluentConfig_eq [OF ba] cleanup_loop_def
        local_declarations_def)
  with ab ba show ?thesis
    by simp
qed

section \<open>The match variable of a tag\<close>

text \<open>
  C2 as stated (every non-alphanumeric character of the tag is replaced) fails: for the
  tag \<open>a-b\<close> the hyphen is not alphanumeric, and it is part of the match variable
  \<open>__match_a-b\<close> that the match stage and the field-removal stage of \<open>AllComponents\<close>
  refer to.
\<close>

theorem match_variable_keeps_hyphen_counterexample:
  "\<not> alphanumeric (CHR ''-'') \<and> CHR ''-'' \<in> set ''a-b''
   \<and> match_variable ''a-b'' = ''__match_a-b''
   \<and> CHR ''-'' \<in> set (match_variable ''a-b'')
   \<and> Config (AllComponents spec_Components ''a-b''
         [\<lparr>expr = Restriction ''='' [''severity''] ''ERROR''\<rparr>] False ! 1) ''Regex''
       = Some ''__match_a-b 1''
   \<and> Config (AllComponents spec_Components ''a-b''
         [\<lparr>expr = Restriction ''='' [''severity''] ''ERROR''\<rparr>] False ! 2) ''Remove_wildcard''
       = Some ''__match_a-b''"
  by (simp add: alphanumeric_def match_variable_def ReplaceAll_def AllComponents_def
      innerComponents_def spec_Components_empty)

text \<open>
  C2, amended: for every tag the match variable is \<open>__match_\<close> followed by the tag in which
  every dot is replaced by an underscore and every other byte is kept; no dot occurs in
  it. \<open>innerComponents\<close> compiles a filter under this variable, and in the result of
  \<open>AllComponents\<close> the match stage (third from the end) refers to the variable followed by
  \<open>1\<close> under the key of the mode, and the field-removal stage (second from the end) names it
  under \<open>Remove_wildcard\<close>.
\<close>

theorem match_variable_replaces_dots:
  "match_variable tag = ''__match_'' @ map (\<lambda>c. if c = CHR ''.'' then CHR ''_'' else c) tag
   \<and> CHR ''.'' \<notin> set (match_variable tag)
   \<and> innerComponents EC f tag = EC (expr f) tag (match_variable tag)
   \<and> Config (AllComponents EC tag filters isExclusionFilter
         ! (length (AllComponents EC tag filters isExclusionFilter) - 3))
        (if isExclusionFilter then ''Exclude'' else ''Regex'')
       = Some (match_variable tag @ '' 1'')
   \<and> Config (AllComponents EC tag filters isExclusionFilter
         ! (length (AllComponents EC tag filters isExclusionFilter) - 2)) ''Remove_wildcard''
       = Some (match_variable tag)"
proof -
  let ?pre = "grouping_stage tag # concat (map (\<lambda>f. innerComponents EC f tag) filters)"
  have A: "AllComponents EC tag filters isExclusionFilter =
      ?pre @ [match_stage tag isExclusionFilter, removal_stage tag, ungrouping_stage tag]"
    by (simp add: AllComponents_eq)
  have n3: "length (AllComponents EC tag filters isExclusionFilter) - 3 = length ?pre"
    and n2: "length (AllComponents EC tag filters isExclusionFilter) - 2 = length ?pre + 1"
    by (simp_all add: A)
  have g: "AllComponents EC tag filters isExclusionFilter ! length ?pre
      = match_stage tag isExclusionFilter"
    unfolding A by (simp only: nth_append_length)
  have r: "AllComponents EC tag filters isExclusionFilter ! (length ?pre + 1) = removal_stage tag"
    unfolding A by (simp only: nth_append_length_plus) simp
  have dots: "CHR ''.'' \<notin> set (match_variable tag)"
    by (auto simp: match_variable_def ReplaceAll_def)
  show ?thesis
    unfolding n3 n2 g r using dots
    by (simp add: match_variable_def ReplaceAll_def innerComponents_def match_stage_def
        removal_stage_def)
qed

section \<open>The scenario of a plain field comparison\<close>

text \<open>
  C3 as stated (five entries, none of them an inner stage) fails for every implementation
  of the method \<open>Components\<close> of the expression: no filter without inner stages under the
  tag \<open>app.log\<close> has a result of five entries. A compilation that emits no stage for the
  comparison gives four entries; a compilation that emits one modify stage for it gives
  five entries, one of them an inner stage.
\<close>

theorem Components_five_entries_without_inner_stages_counterexample:
  "\<not> (\<exists>EC f. EC (expr f) ''app.log'' ''__match_app_log'' = []
          \<and> length (Components EC f ''app.log'' False) = 5)
   \<and> length (Components spec_Components \<lparr>expr = Restriction ''='' [''severity''] ''ERROR''\<rparr>
        ''app.log'' False) = 4
   \<and> length (Components modify_Components \<lparr>expr = Restriction ''='' [''severity''] ''ERROR''\<rparr>
        ''app.log'' False) = 5
   \<and> length (modify_Components (Restriction ''='' [''severity''] ''ERROR'') ''app.log''
        ''__match_app_log'') = 1"
  by (simp add: Components_eq match_variable_app_log spec_Components_empty modify_Components_def)

text \<open>
  C3, amended: for the tag \<open>app.log\<close> in inclusion mode and every filter, \<open>Components\<close>
  returns, in this order, the grouping stage, the inner stages of the filter compiled
  under the match variable \<open>__match_app_log\<close>, the match stage whose inclusion key \<open>Regex\<close>
  refers to \<open>__match_app_log\<close>, the field-removal stage and the ungrouping stage: four
  entries more than the filter has inner stages. The result has exactly five entries
  exactly when the filter has one inner stage, and exactly four exactly when it has none.
\<close>

theorem Components_scenario_shape:
  "Components EC f ''app.log'' False =
     [\<lparr>Kind = ''FILTER'',
       Config = [''Name'' \<mapsto> ''nest'', ''Match'' \<mapsto> ''app.log'', ''Operation'' \<mapsto> ''nest'',
                 ''Nest_under'' \<mapsto> ''record'', ''Wildcard'' \<mapsto> ''*'']\<rparr>]
     @ EC (expr f) ''app.log'' ''__match_app_log''
     @ [\<lparr>Kind = ''FILTER'',
         Config = [''Name'' \<mapsto> ''grep'', ''Match'' \<mapsto> ''app.log'',
                   ''Regex'' \<mapsto> ''__match_app_log 1'']\<rparr>,
        \<lparr>Kind = ''FILTER'',
         Config = [''Name'' \<mapsto> ''modify'', ''Match'' \<mapsto> ''app.log'',
                   ''Remove_wildcard'' \<mapsto> ''__match_app_log'']\<rparr>,
        \<lparr>Kind = ''FILTER'',
         Config = [''Name'' \<mapsto> ''nest'', ''Match'' \<mapsto> ''app.log'', ''Operation'' \<mapsto> ''lift'',
                   ''Nested_under'' \<mapsto> ''record'']\<rparr>]
   \<and> length (Components EC f ''app.log'' False)
       = 4 + length (EC (expr f) ''app.log'' ''__match_app_log'')
   \<and> (length (Components EC f ''app.log'' False) = 5
        \<longleftrightarrow> length (EC (expr f) ''app.log'' ''__match_app_log'') = 1)
   \<and> (length (Components EC f ''app.log'' False) = 4
        \<longleftrightarrow> EC (expr f) ''app.log'' ''__match_app_log'' = [])"
  by (simp add: Components_def AllComponents_def innerComponents_def ReplaceAll_def Let_def)

section \<open>The envelope of \<open>AllComponents\<close>\<close>

text \<open>
  C4: for every tag, every list of filters and either value of the exclusion flag, the
  result of \<open>AllComponents\<close> is not empty; its first stage is the grouping stage and its
  last stage the ungrouping stage of the same tag; the inner stages of the filters follow
  the grouping stage in list order, and the match stage and the field-removal stage stand
  after all of them and before the ungrouping stage. All of this holds whatever the inner
  stages are. \<open>AllComponents\<close> itself adds one grouping and one ungrouping stage to those
  among the inner stages; exactly one stage of the result is a grouping stage and exactly
  one an ungrouping stage when the inner stages do not themselves run the nest plugin (the
  comment on \<open>innerComponents\<close> says that they are modify filters only).
\<close>

theorem AllComponents_envelope:
  "AllComponents EC tag filters excl \<noteq> []
   \<and> hd (AllComponents EC tag filters excl) = grouping_stage tag
   \<and> last (AllComponents EC tag filters excl) = ungrouping_stage tag
   \<and> is_grouping (grouping_stage tag) \<and> is_ungrouping (ungrouping_stage tag)
   \<and> AllComponents EC tag filters excl =
       grouping_stage tag # concat (map (\<lambda>f. innerComponents EC f tag) filters)
         @ [match_stage tag excl, removal_stage tag, ungrouping_stage tag]
   \<and> length (filter is_grouping (AllComponents EC tag filters excl)) =
       1 + length (filter is_grouping (concat (map (\<lambda>f. innerComponents EC f tag) filters)))
   \<and> length (filter is_ungrouping (AllComponents EC tag filters excl)) =
       1 + length (filter is_ungrouping (concat (map (\<lambda>f. innerComponents EC f tag) filters)))
   \<and> ((\<forall>f\<in>set filters. \<forall>c\<in>set (innerComponents EC f tag). Config c ''Name'' \<noteq> Some ''nest'')
        \<longrightarrow> length (filter is_grouping (AllComponents EC tag filters excl)) = 1
          \<and> length (filter is_ungrouping (AllComponents EC tag filters excl)) = 1)"
proof -
  let ?inner = "concat (map (\<lambda>f. innerComponents EC f tag) filters)"
  have counts: "filter is_grouping ?inner = [] \<and> filter is_ungrouping ?inner = []"
    if "\<forall>f\<in>set filters. \<forall>c\<in>set (innerComponents EC f tag). Config c ''Name'' \<noteq> Some ''nest''"
  proof -
    from that have "\<forall>c\<in>set ?inner. Config c ''Name'' \<noteq> Some ''nest''"
      by auto
    then show ?thesis
      by (simp add: filter_no_nest)
  qed
  show ?thesis
    using counts by (auto simp: AllComponents_eq is_grouping_simps is_ungrouping_simps)
qed

text \<open>
  C4 at two filters that each have one inner stage, in exclusion mode: six stages, one of
  them a grouping stage and one an ungrouping stage.
\<close>

theorem AllComponents_envelope_witness:
  "AllComponents modify_Components ''app.log''
     [\<lparr>expr = Restriction ''='' [''severity''] ''ERROR''\<rparr>,
      \<lparr>expr = Negation (Restriction '':'' [''message''] ''debug'')\<rparr>] True \<noteq> []
   \<and> length (filter is_grouping (AllComponents modify_Components ''app.log''
        [\<lparr>expr = Restriction ''='' [''severity''] ''ERROR''\<rparr>,
         \<lparr>expr = Negation (Restriction '':'' [''message''] ''debug'')\<rparr>] True)) = 1
   \<and> length (filter is_ungrouping (AllComponents modify_Components ''app.log''
        [\<lparr>expr = Restriction ''='' [''severity''] ''ERROR''\<rparr>,
         \<lparr>expr = Negation (Restriction '':'' [''message''] ''debug'')\<rparr>] True)) = 1
   \<and> length (AllComponents modify_Components ''app.log''
        [\<lparr>expr = Restriction ''='' [''severity''] ''ERROR''\<rparr>,
         \<lparr>expr = Negation (Restriction '':'' [''message''] ''debug'')\<rparr>] True) = 6"
proof -
  let ?fs = "[\<lparr>expr = Restriction ''='' [''severity''] ''ERROR''\<rparr>,
      \<lparr>expr = Negation (Restriction '':'' [''message''] ''debug'')\<rparr>]"
  have h: "\<forall>f\<in>set ?fs.
      \<forall>c\<in>set (innerComponents modify_Components f ''app.log''). Config c ''Name'' \<noteq> Some ''nest''"
    by (simp add: innerComponents_def modify_Components_def)
  note t = AllComponents_envelope [of modify_Components "''app.log''" ?fs True]
  from t have "length (AllComponents modify_Components ''app.log'' ?fs True) = 6"
    by (simp add: innerComponents_def modify_Components_def)
  with t h show ?thesis
    by blast
qed

section \<open>Inclusion and exclusion\<close>

text \<open>
  C5: for every tag and every list of filters, the result of \<open>AllComponents\<close> in exclusion
  mode is the result in inclusion mode with one stage changed, the match stage (third from
  the end, named \<open>grep\<close>): in its configuration the key \<open>Regex\<close> is removed and the key
  \<open>Exclude\<close>, absent before, is added with the value that \<open>Regex\<close> had. The number and the
  order of the stages, every other stage, the kind of the match stage and every other
  entry of its configuration are the same.
\<close>

theorem AllComponents_flag_duality:
  "length (AllComponents EC tag filters False) - 3 < length (AllComponents EC tag filters False)
   \<and> Config (AllComponents EC tag filters False
        ! (length (AllComponents EC tag filters False) - 3)) ''Name'' = Some ''grep''
   \<and> Config (AllComponents EC tag filters False
        ! (length (AllComponents EC tag filters False) - 3)) ''Regex''
       = Some (match_variable tag @ '' 1'')
   \<and> Config (AllComponents EC tag filters False
        ! (length (AllComponents EC tag filters False) - 3)) ''Exclude'' = None
   \<and> AllComponents EC tag filters True =
       (AllComponents EC tag filters False)
         [length (AllComponents EC tag filters False) - 3 :=
            (AllComponents EC tag filters False
               ! (length (AllComponents EC tag filters False) - 3))
              \<lparr>Config :=
                 (Config (AllComponents EC tag filters False
                    ! (length (AllComponents EC tag filters False) - 3)))
                   (''Regex'' := None, ''Exclude'' \<mapsto> match_variable tag @ '' 1'')\<rparr>]"
proof -
  let ?inner = "concat (map (\<lambda>f. innerComponents EC f tag) filters)"
  let ?pre = "grouping_stage tag # ?inner"
  have A: "AllComponents EC tag filters False =
      ?pre @ [match_stage tag False, removal_stage tag, ungrouping_stage tag]"
    and B: "AllComponents EC tag filters True =
      ?pre @ [match_stage tag True, removal_stage tag, ungrouping_stage tag]"
    by (simp_all add: AllComponents_eq)
  have n: "length (AllComponents EC tag filters False) - 3 = length ?pre"
    by (simp add: A)
  have nth: "AllComponents EC tag filters False ! length ?pre = match_stage tag False"
    unfolding A by (simp only: nth_append_length)
  have upd: "(match_stage tag False)\<lparr>Config := (Config (match_stage tag False))
      (''Regex'' := None, ''Exclude'' \<mapsto> match_variable tag @ '' 1'')\<rparr> = match_stage tag True"
    by (auto simp: match_stage_def fun_eq_iff)
  have "(AllComponents EC tag filters False)[length ?pre := match_stage tag True] =
      AllComponents EC tag filters True"
    unfolding A B by (simp only: list_update_length)
  then show ?thesis
    unfolding n nth upd by (simp add: A match_stage_def)
qed

section \<open>The two results of \<open>AllFluentConfig\<close>\<close>

text \<open>
  C6: for every tag, every mapping from names to filters and every order in which the
  names are enumerated: if the concatenation of the inner stages of all filters is empty,
  \<open>AllFluentConfig\<close> returns no stage, and as script text the declarations of the local
  booleans only; otherwise it returns the grouping stage, all inner stages and the
  ungrouping stage, and the declarations followed by the cleanup loop. In the second case
  exactly one of the returned stages is a grouping stage and exactly one an ungrouping
  stage, given that no inner stage runs the nest plugin itself.
\<close>

theorem AllFluentConfig_script_only_or_envelope:
  assumes "range_order filters vars"
  shows "(inner_stages FC tag filters vars = [] \<longrightarrow>
            AllFluentConfig FC tag filters vars =
              Some ([], local_declarations FC tag filters vars))
   \<and> (inner_stages FC tag filters vars \<noteq> [] \<longrightarrow>
            AllFluentConfig FC tag filters vars =
              Some (grouping_stage tag # inner_stages FC tag filters vars @ [ungrouping_stage tag],
                    local_declarations FC tag filters vars @ cleanup_loop))
   \<and> ((\<forall>c\<in>set (inner_stages FC tag filters vars). Config c ''Name'' \<noteq> Some ''nest'') \<longrightarrow>
         length (filter is_grouping
           (grouping_stage tag # inner_stages FC tag filters vars @ [ungrouping_stage tag])) = 1
       \<and> length (filter is_ungrouping
           (grouping_stage tag # inner_stages FC tag filters vars @ [ungrouping_stage tag])) = 1)"
  using AllFluentConfig_eq [OF assms, of FC tag]
  by (simp add: filter_no_nest is_grouping_simps is_ungrouping_simps)

text \<open>
  C6 at the mapping of the names \<open>a\<close> and \<open>b\<close>, enumerated in this order: compiled as the
  spec describes, no filter has an inner stage and the result is the two declarations;
  compiled with one modify stage per filter, the result is the envelope around the two
  stages and the two declarations followed by the cleanup loop.
\<close>

theorem AllFluentConfig_script_only_or_envelope_witness:
  "AllFluentConfig spec_FluentConfig ''app.log''
     [''a'' \<mapsto> \<lparr>expr = Restriction ''='' [''severity''] ''ERROR''\<rparr>,
      ''b'' \<mapsto> \<lparr>expr = Negation (Restriction '':'' [''message''] ''debug'')\<rparr>] [''a'', ''b'']
     = Some ([], ''local a = severity = ERROR'' @ [CHR 0x0A]
                 @ ''local b = not (message : debug)'' @ [CHR 0x0A])
   \<and> AllFluentConfig modify_FluentConfig ''app.log''
     [''a'' \<mapsto> \<lparr>expr = Restriction ''='' [''severity''] ''ERROR''\<rparr>,
      ''b'' \<mapsto> \<lparr>expr = Negation (Restriction '':'' [''message''] ''debug'')\<rparr>] [''a'', ''b'']
     = Some ([grouping_stage ''app.log'',
              \<lparr>Kind = ''FILTER'', Config = [''Name'' \<mapsto> ''modify'', ''Match'' \<mapsto> ''app.log'',
                                            ''Add'' \<mapsto> ''__match_0 1'']\<rparr>,
              \<lparr>Kind = ''FILTER'', Config = [''Name'' \<mapsto> ''modify'', ''Match'' \<mapsto> ''app.log'',
                                            ''Add'' \<mapsto> ''__match_1 1'']\<rparr>,
              ungrouping_stage ''app.log''],
             ''local a = record.__match_0'' @ [CHR 0x0A]
               @ ''local b = record.__match_1'' @ [CHR 0x0A] @ cleanup_loop)"
proof -
  let ?M = "[''a'' \<mapsto> \<lparr>expr = Restriction ''='' [''severity''] ''ERROR''\<rparr>,
      ''b'' \<mapsto> \<lparr>expr = Negation (Restriction '':'' [''message''] ''debug'')\<rparr>]"
  have h: "range_order ?M [''a'', ''b'']"
    by (auto simp: range_order_def)
  have i0: "itoa 0 = ''0''" and i1: "itoa (Suc 0) = ''1''"
    by (simp_all add: itoa.simps)
  have s: "inner_stages spec_FluentConfig ''app.log'' ?M [''a'', ''b''] = []"
    by (simp add: inner_stages_def)
  have m: "inner_stages modify_FluentConfig ''app.log'' ?M [''a'', ''b''] \<noteq> []"
    by (simp add: inner_stages_def modify_FluentConfig_def modify_Components_def)
  from AllFluentConfig_script_only_or_envelope [OF h, of spec_FluentConfig "''app.log''"] s
  have 1: "AllFluentConfig spec_FluentConfig ''app.log'' ?M [''a'', ''b''] =
      Some ([], local_declarations spec_FluentConfig ''app.log'' ?M [''a'', ''b''])"
    by blast
  from AllFluentConfig_script_only_or_envelope [OF h, of modify_FluentConfig "''app.log''"] m
  have 2: "AllFluentConfig modify_FluentConfig ''app.log'' ?M [''a'', ''b''] =
      Some (grouping_stage ''app.log'' # inner_stages modify_FluentConfig ''app.log'' ?M [''a'', ''b'']
              @ [ungrouping_stage ''app.log''],
            local_declarations modify_FluentConfig ''app.log'' ?M [''a'', ''b''] @ cleanup_loop)"
    by blast
  show ?thesis
    unfolding 1 2
    by (simp add: inner_stages_def local_declarations_def modify_FluentConfig_def
        modify_Components_def i0 i1)
qed

section \<open>The disjunction of filters\<close>

text \<open>
  C7: for every list of filters, \<open>MatchesAny\<close> returns the filter whose root expression is
  the disjunction of the root expressions of the filters, in the order of the list.
  \<open>MatchesAny\<close> calls neither compilation method (the model of it takes none), and its
  result is a new value: the filters it is given are left as they are.
\<close>

theorem MatchesAny_disjunction:
  "expr (MatchesAny filters) = Disjunction (map expr filters)"
proof -
  have "foldl (\<lambda>d f. d @ [expr f]) d filters = d @ map expr filters" for d
    by (induction filters arbitrary: d) simp_all
  then show ?thesis
    by (simp add: MatchesAny_def)
qed

section \<open>The constructors and the parse result\<close>

text \<open>
  C8 as stated fails where it opposes a full expression to a bare field reference: the
  type assertion of \<open>NewFilter\<close> accepts every expression, and a restriction of kind
  \<open>GLOBAL\<close> is one. On the text of a bare field reference both constructors succeed.
\<close>

theorem NewFilter_accepts_bare_field_counterexample:
  "severity_Parse ''severity'' = Inr (Expr (Restriction ''GLOBAL'' [''severity''] []))
   \<and> NewMember severity_Parse ''severity'' = Inr \<lparr>Target = [''severity'']\<rparr>
   \<and> NewFilter severity_Parse ''severity''
       = Inr \<lparr>expr = Restriction ''GLOBAL'' [''severity''] []\<rparr>"
  by (simp add: severity_Parse_def NewMember_def NewFilter_def)

text \<open>
  C8, amended: \<open>NewFilter\<close> returns a filter exactly when the parser returns an expression
  of any kind, a restriction with any operator included, and the filter wraps that
  expression; \<open>NewMember\<close> returns a member exactly when the parser returns a restriction
  whose operator is \<open>GLOBAL\<close>, and the member holds the left-hand side of it, so every
  text that \<open>NewMember\<close> accepts \<open>NewFilter\<close> accepts too. Each constructor returns the
  error of the parser exactly when the parser fails, and its own error, which carries the
  parse result, exactly when the parser returns a result of another kind. Both
  constructors are functions of the parser and the text alone: filter.go assigns no
  package variable, so there is no state that a failed construction could change.
\<close>

theorem constructors_classify_parse_result:
  "(NewFilter Parse s = Inr flt \<longleftrightarrow> Parse s = Inr (Expr (expr flt)))
   \<and> (NewFilter Parse s = Inr \<lparr>expr = Restriction op lhs rhs\<rparr>
        \<longleftrightarrow> Parse s = Inr (Expr (Restriction op lhs rhs)))
   \<and> (NewFilter Parse s = Inl (ParseError err) \<longleftrightarrow> Parse s = Inl err)
   \<and> (NewFilter Parse s = Inl (NotAnExpression out) \<longleftrightarrow>
        Parse s = Inr out \<and> (\<forall>e. out \<noteq> Expr e))
   \<and> NewFilter Parse s \<noteq> Inl (NotAField out)
   \<and> (NewMember Parse s = Inr mem \<longleftrightarrow>
        (\<exists>rhs. Parse s = Inr (Expr (Restriction ''GLOBAL'' (Target mem) rhs))))
   \<and> (NewMember Parse s = Inr mem \<longleftrightarrow>
        (\<exists>rhs. NewFilter Parse s = Inr \<lparr>expr = Restriction ''GLOBAL'' (Target mem) rhs\<rparr>))
   \<and> (NewMember Parse s = Inl (ParseError err) \<longleftrightarrow> Parse s = Inl err)
   \<and> (NewMember Parse s = Inl (NotAField out) \<longleftrightarrow>
        Parse s = Inr out \<and> (\<forall>lhs rhs. out \<noteq> Expr (Restriction ''GLOBAL'' lhs rhs)))
   \<and> NewMember Parse s \<noteq> Inl (NotAnExpression out)"
  by (auto simp: NewFilter_def NewMember_def split: sum.splits attrib.splits expression.splits)

section \<open>The single-filter entry point\<close>

text \<open>
  C10: for every filter, every tag and either value of the exclusion flag, \<open>Components\<close>
  returns the list that \<open>AllComponents\<close> returns for the one-element list of the filter:
  the grouping stage, the inner stages of the filter, the match stage, the field-removal
  stage and the ungrouping stage.
\<close>

theorem Components_is_AllComponents_singleton:
  "Components EC f tag isExclusionFilter = AllComponents EC tag [f] isExclusionFilter
   \<and> Components EC f tag isExclusionFilter =
       grouping_stage tag # innerComponents EC f tag
         @ [match_stage tag isExclusionFilter, removal_stage tag, ungrouping_stage tag]"
  by (simp add: Components_def AllComponents_eq)

section \<open>The empty list of filters\<close>

text \<open>
  C9: for every tag and either value of the exclusion flag, \<open>AllComponents\<close> on the empty
  list of filters returns the four stages of the envelope in order: the grouping stage,
  the match (grep) stage, the field-removal stage and the ungrouping stage. The result is
  never the empty list.
\<close>

theorem AllComponents_empty_filters:
  "AllComponents EC tag [] isExclusionFilter =
     [\<lparr>Kind = ''FILTER'',
       Config = [''Name'' \<mapsto> ''nest'', ''Match'' \<mapsto> tag, ''Operation'' \<mapsto> ''nest'',
                 ''Nest_under'' \<mapsto> ''record'', ''Wildcard'' \<mapsto> ''*'']\<rparr>,
      \<lparr>Kind = ''FILTER'',
       Config = [''Name'' \<mapsto> ''grep'', ''Match'' \<mapsto> tag,
                 (if isExclusionFilter then ''Exclude'' else ''Regex'') \<mapsto>
                   ''__match_'' @ ReplaceAll tag (CHR ''.'') (CHR ''_'') @ '' 1'']\<rparr>,
      \<lparr>Kind = ''FILTER'',
       Config = [''Name'' \<mapsto> ''modify'', ''Match'' \<mapsto> tag,
                 ''Remove_wildcard'' \<mapsto> ''__match_'' @ ReplaceAll tag (CHR ''.'') (CHR ''_'')]\<rparr>,
      \<lparr>Kind = ''FILTER'',
       Config = [''Name'' \<mapsto> ''nest'', ''Match'' \<mapsto> tag, ''Operation'' \<mapsto> ''lift'',
                 ''Nested_under'' \<mapsto> ''record'']\<rparr>]
   \<and> AllComponents EC tag [] isExclusionFilter \<noteq> []"
  by (simp add: AllComponents_def)

end
